theory Spec2Isabelle
  imports Complex_Main
begin

section \<open>Text primitives\<close>

text \<open>
  Python strings are modelled as \<^typ>\<open>string\<close> over the ASCII range; a Python float is
  modelled as an exact \<^typ>\<open>real\<close> (no rounding, no infinities, no NaN). The case
  functions below are \<^verbatim>\<open>str.isupper\<close> and \<^verbatim>\<open>str.lower\<close> on ASCII; on code points
  from 128 on they differ from Python, which also knows capitals, word characters and
  white space there.
\<close>

definition isupper :: "char \<Rightarrow> bool" where
  "isupper c = (let n = (of_char c :: nat) in 65 \<le> n \<and> n \<le> 90)"

definition islower :: "char \<Rightarrow> bool" where
  "islower c = (let n = (of_char c :: nat) in 97 \<le> n \<and> n \<le> 122)"

definition lower_char :: "char \<Rightarrow> char" where
  "lower_char c = (if isupper c then char_of (of_char c + (32::nat)) else c)"

definition lower :: "string \<Rightarrow> string" where
  "lower s = map lower_char s"

definition is_digit :: "char \<Rightarrow> bool" where
  "is_digit c = (let n = (of_char c :: nat) in 48 \<le> n \<and> n \<le> 57)"

definition is_word :: "char \<Rightarrow> bool" where
  "is_word c = (isupper c \<or> islower c \<or> is_digit c \<or> c = CHR ''_'')"

definition is_space :: "char \<Rightarrow> bool" where
  "is_space c =
     (let n = (of_char c :: nat) in (9 \<le> n \<and> n \<le> 13) \<or> (28 \<le> n \<and> n \<le> 32))"

section \<open>The regular expressions of the \<^verbatim>\<open>re\<close> module\<close>

text \<open>
  The pattern tables of the modules are regular expressions handed to \<^verbatim>\<open>re.search\<close>
  and \<^verbatim>\<open>re.findall\<close>. The fragment they use is embedded as a datatype: literals,
  bracket sets (with \<^verbatim>\<open>\w\<close>, \<^verbatim>\<open>\s\<close>, \<^verbatim>\<open>\d\<close> and ranges), the word boundary
  \<^verbatim>\<open>\b\<close>, concatenation, alternation, \<^verbatim>\<open>?\<close> and the greedy \<^verbatim>\<open>*\<close>. Groups only
  structure a pattern here, since the code uses the number of matches and never a group.
\<close>

datatype atom = AWord | ASpace | ADigit | AChar char | ARange char char

fun atom_matches :: "atom \<Rightarrow> char \<Rightarrow> bool" where
  "atom_matches AWord c = is_word c"
| "atom_matches ASpace c = is_space c"
| "atom_matches ADigit c = is_digit c"
| "atom_matches (AChar d) c = (c = d)"
| "atom_matches (ARange lo hi) c =
     ((of_char lo :: nat) \<le> of_char c \<and> (of_char c :: nat) \<le> of_char hi)"

datatype regex =
    Lit string
  | OneOf "atom list"
  | Boundary
  | Seq regex regex
  | Alt regex regex
  | Opt regex
  | Star regex

definition Plus :: "regex \<Rightarrow> regex" where
  "Plus r = Seq r (Star r)"

fun seqs :: "regex list \<Rightarrow> regex" where
  "seqs [] = Lit []"
| "seqs [r] = r"
| "seqs (r # rs) = Seq r (seqs rs)"

fun alts :: "regex list \<Rightarrow> regex" where
  "alts [] = OneOf []"
| "alts [r] = r"
| "alts (r # rs) = Alt r (alts rs)"

definition words :: "string list \<Rightarrow> regex" where
  "words ws = alts (map Lit ws)"

text \<open>
  A cursor is a position in the subject: the character before it (none at the start) and
  the text from it on. \<open>ends r cur\<close> lists the cursors at which a match of \<open>r\<close> starting at
  \<open>cur\<close> can end, in the order a backtracking matcher tries them (left alternative first,
  one more iteration of a star first), so the head of the list is the match that
  \<^verbatim>\<open>re\<close> reports. A star does not iterate on an empty match of its body.
\<close>

type_synonym cursor = "char option \<times> string"

definition word_before :: "char option \<Rightarrow> bool" where
  "word_before p = (case p of None \<Rightarrow> False | Some c \<Rightarrow> is_word c)"

definition word_after :: "string \<Rightarrow> bool" where
  "word_after xs = (case xs of [] \<Rightarrow> False | c # _ \<Rightarrow> is_word c)"

fun ends :: "regex \<Rightarrow> cursor \<Rightarrow> cursor list" where
  "ends (Lit w) cur =
     (if take (length w) (snd cur) = w
      then [(if w = [] then fst cur else Some (last w), drop (length w) (snd cur))]
      else [])"
| "ends (OneOf as) cur =
     (case snd cur of
        [] \<Rightarrow> []
      | c # cs \<Rightarrow> if list_ex (\<lambda>a. atom_matches a c) as then [(Some c, cs)] else [])"
| "ends Boundary cur =
     (if word_before (fst cur) \<noteq> word_after (snd cur) then [cur] else [])"
| "ends (Seq a b) cur = concat (map (ends b) (ends a cur))"
| "ends (Alt a b) cur = ends a cur @ ends b cur"
| "ends (Opt a) cur = ends a cur @ [cur]"
| "ends (Star a) cur =
     concat (map (\<lambda>nxt. if length (snd nxt) < length (snd cur) then ends (Star a) nxt else [])
                 (ends a cur)) @ [cur]"

text \<open>\<^verbatim>\<open>re.search\<close>: is there a match starting at the cursor or anywhere after it.\<close>

fun search :: "regex \<Rightarrow> cursor \<Rightarrow> bool" where
  "search r (p, []) = (ends r (p, []) \<noteq> [])"
| "search r (p, c # cs) = (ends r (p, c # cs) \<noteq> [] \<or> search r (Some c, cs))"

definition re_search :: "regex \<Rightarrow> string \<Rightarrow> bool" where
  "re_search r s = search r (None, s)"

text \<open>
  \<^verbatim>\<open>re.findall\<close>: the non-overlapping matches, scanning from the left. The leftmost
  match is taken, the scan goes on where it ended; after an empty match the next match
  at the same place has to be a non-empty one (flag \<open>adv\<close>), else the scan moves one
  character on.
\<close>

function scan :: "regex \<Rightarrow> bool \<Rightarrow> cursor \<Rightarrow> string list" where
  "scan r adv (p, xs) =
     (case (if adv then filter (\<lambda>e. length (snd e) < length xs) (ends r (p, xs))
            else ends r (p, xs)) of
        [] \<Rightarrow> (case xs of [] \<Rightarrow> [] | c # cs \<Rightarrow> scan r False (Some c, cs))
      | e # _ \<Rightarrow>
          take (length xs - length (snd e)) xs #
          (if length (snd e) < length xs then scan r False e
           else if adv then []
           else scan r True (p, xs)))"
  by pat_completeness auto
termination
  by (relation "measures [\<lambda>(r, adv, cur). length (snd cur), \<lambda>(r, adv, cur). if adv then 0 else 1]")
     auto

definition re_findall :: "regex \<Rightarrow> string \<Rightarrow> string list" where
  "re_findall r s = scan r False (None, s)"

declare scan.simps [simp del]

section \<open>Content moderation (content\_moderation\_api.py)\<close>

abbreviation wordc :: regex where "wordc \<equiv> OneOf [AWord]"
abbreviation spacec :: regex where "spacec \<equiv> OneOf [ASpace]"
abbreviation digitc :: regex where "digitc \<equiv> OneOf [ADigit]"

definition HATE_SPEECH_PATTERNS :: "regex list" where
  "HATE_SPEECH_PATTERNS =
    [seqs [Boundary, words [''kill'', ''murder'', ''death''], Plus spacec,
           words [''all'', ''every''], Plus spacec,
           words [''black'', ''white'', ''jew'', ''muslim'', ''gay'', ''trans''],
           Star wordc, Boundary],
     seqs [Boundary, words [''hitler'', ''nazi'', ''supremacy'', ''genocide''], Boundary],
     seqs [Boundary,
           alts [Lit ''rape'', Lit ''pedo'', seqs [Lit ''child'', Plus spacec, Lit ''molest'']],
           Star wordc, Boundary],
     seqs [Boundary, words [''bomb'', ''terrorist'', ''attack''], Plus spacec,
           words [''all'', ''every''], Plus spacec, Plus wordc, Boundary]]"

definition hexc :: regex where
  "hexc = OneOf [ARange CHR ''0'' CHR ''9'', ARange CHR ''a'' CHR ''f'', ARange CHR ''A'' CHR ''F'']"

definition SPAM_PATTERNS :: "regex list" where
  "SPAM_PATTERNS =
    [seqs [Boundary,
           alts [seqs [Lit ''buy'', Plus spacec, Lit ''now''],
                 seqs [Lit ''limited'', Plus spacec, Lit ''time''],
                 seqs [Lit ''act'', Plus spacec, Lit ''fast''],
                 seqs [Lit ''click'', Plus spacec, Lit ''here'']],
           Boundary],
     seqs [Boundary,
           alts [seqs [Lit ''free'', Plus spacec, Lit ''offer''],
                 seqs [Lit ''money'', Plus spacec, Lit ''back''],
                 Lit ''guaranteed'',
                 seqs [Lit ''no'', Plus spacec, Lit ''risk'']],
           Boundary],
     seqs [Boundary,
           alts [seqs [Lit ''earn'', Plus spacec, Lit ''$'', Plus digitc],
                 seqs [Plus digitc, Lit ''%'', Plus spacec, Lit ''off''],
                 Lit ''discount'',
                 Lit ''sale''],
           Boundary],
     seqs [Lit ''http'', Opt (OneOf [AChar CHR ''s'']), Lit ''://'',
           Plus (alts [OneOf [ARange CHR ''a'' CHR ''z'', ARange CHR ''A'' CHR ''Z''],
                       OneOf [ARange CHR ''0'' CHR ''9''],
                       OneOf [ARange CHR ''$'' CHR ''_'', AChar CHR ''@'', AChar CHR ''.'',
                              AChar CHR ''&'', AChar CHR ''+''],
                       OneOf [AChar CHR ''!'', AChar CHR ''*'', AChar (CHR 0x5C), AChar CHR ''('',
                              AChar (CHR 0x5C), AChar CHR '')'', AChar CHR '',''],
                       seqs [Lit ''%'', hexc, hexc]])]]"

definition PROFANITY_PATTERNS :: "regex list" where
  "PROFANITY_PATTERNS =
    [seqs [Boundary,
           words [''fuck'', ''shit'', ''bitch'', ''asshole'', ''dick'', ''pussy'', ''cunt''],
           Star wordc, Boundary],
     seqs [Boundary,
           words [''motherfucker'', ''fucker'', ''bastard'', ''whore'', ''slut''],
           Star wordc, Boundary]]"

record moderation_details =
  hate_speech_detected :: bool
  spam_detected :: bool
  profanity_count :: nat
  caps_ratio :: real
  text_length :: nat
  content_type :: string
  strictness_level :: string

record moderation_result =
  is_appropriate :: bool
  confidence_score :: real
  flagged_issues :: "string list"
  risk_level :: string
  suggested_action :: string
  moderation_details :: moderation_details

text \<open>
  \<^verbatim>\<open>analyze_content\<close>, lines 44 to 84: the four checks and the strictness adjustment.
  Each \<^verbatim>\<open>for\<close> loop over a pattern table is a \<^const>\<open>fold\<close> over it; the pair
  \<open>(issues, risk_score)\<close> is the state the checks update. The value is the state after line
  84, with the two locals the result also reports.
\<close>

definition score_content :: "string \<Rightarrow> string \<Rightarrow> string list \<times> real \<times> nat \<times> real" where
  "score_content text strictness =
    (let text_lower = lower text;
         (issues, risk_score) =
            fold (\<lambda>pattern (issues, risk_score).
                    if re_search pattern text_lower
                    then (issues @ [''hate_speech''], risk_score + 0.8)
                    else (issues, risk_score))
                 HATE_SPEECH_PATTERNS ([], 0);
         spam_count =
            fold (\<lambda>pattern spam_count.
                    if re_search pattern text_lower then spam_count + 1 else spam_count)
                 SPAM_PATTERNS (0::nat);
         (issues, risk_score) =
            (if spam_count \<ge> 2 then (issues @ [''spam''], risk_score + 0.6)
             else (issues, risk_score));
         profanity_count =
            fold (\<lambda>pattern profanity_count.
                    profanity_count + length (re_findall pattern text_lower))
                 PROFANITY_PATTERNS (0::nat);
         (issues, risk_score) =
            (if profanity_count > 0
             then (issues @ [''profanity''], risk_score + 0.3 * real (min profanity_count 3))
             else (issues, risk_score));
         caps_ratio =
            (if text \<noteq> [] then real (length (filter isupper text)) / real (length text)
             else 0);
         (issues, risk_score) =
            (if caps_ratio > 0.7 \<and> length text > 10
             then (issues @ [''excessive_caps''], risk_score + 0.2)
             else (issues, risk_score));
         risk_score =
            (if strictness = ''high'' then risk_score * 1.5
             else if strictness = ''low'' then risk_score * 0.7
             else risk_score)
     in (issues, risk_score, profanity_count, caps_ratio))"

text \<open>Lines 86 to 98: the risk level and the suggested action of a risk score.\<close>

definition risk_band :: "real \<Rightarrow> string \<times> string" where
  "risk_band risk_score =
    (if risk_score \<ge> 0.8 then (''critical'', ''block'')
     else if risk_score \<ge> 0.6 then (''high'', ''flag_for_review'')
     else if risk_score \<ge> 0.4 then (''medium'', ''warn'')
     else (''low'', ''allow''))"

text \<open>The whole of \<^verbatim>\<open>analyze_content\<close>, with the result dictionary of lines 100 to 115.\<close>

definition analyze_content :: "string \<Rightarrow> string \<Rightarrow> string \<Rightarrow> moderation_result" where
  "analyze_content text ctype strictness =
    (let (issues, risk_score, prof_count, ratio) = score_content text strictness;
         (level, action) = risk_band risk_score
     in \<lparr> is_appropriate = (risk_score < 0.6),
          confidence_score = min 1.0 risk_score,
          flagged_issues = issues,
          risk_level = level,
          suggested_action = action,
          moderation_details =
            \<lparr> hate_speech_detected = (''hate_speech'' \<in> set issues),
              spam_detected = (''spam'' \<in> set issues),
              profanity_count = prof_count,
              caps_ratio = ratio,
              text_length = length text,
              content_type = ctype,
              strictness_level = strictness \<rparr> \<rparr>)"

text \<open>The risk score after line 84, on its own.\<close>

definition risk_score_of :: "string \<Rightarrow> string \<Rightarrow> real" where
  "risk_score_of text strictness = fst (snd (score_content text strictness))"

section \<open>Emotion extraction (sentiment\_analysis\_api.py)\<close>

definition EMOTION_KEYWORDS :: "(string \<times> string list) list" where
  "EMOTION_KEYWORDS =
    [(''joy'', [''happy'', ''excited'', ''great'', ''amazing'', ''wonderful'', ''fantastic'',
               ''love'', ''enjoy'', ''pleased'', ''thrilled'']),
     (''sadness'', [''sad'', ''depressed'', ''unhappy'', ''miserable'', ''disappointed'',
                   ''heartbroken'', ''grief'', ''sorrow'', ''melancholy'']),
     (''anger'', [''angry'', ''furious'', ''mad'', ''irritated'', ''annoyed'', ''frustrated'',
                 ''outraged'', ''livid'', ''enraged'']),
     (''fear'', [''scared'', ''afraid'', ''terrified'', ''worried'', ''anxious'', ''nervous'',
                ''frightened'', ''panicked'', ''horrified'']),
     (''surprise'', [''surprised'', ''shocked'', ''amazed'', ''astonished'', ''stunned'',
                    ''bewildered'', ''startled'']),
     (''disgust'', [''disgusted'', ''revolted'', ''sickened'', ''appalled'', ''repulsed'',
                   ''nauseated'']),
     (''trust'', [''trust'', ''confident'', ''reliable'', ''faithful'', ''loyal'', ''dependable'',
                 ''secure'']),
     (''anticipation'', [''excited'', ''eager'', ''hopeful'', ''optimistic'', ''enthusiastic'',
                        ''looking forward''])]"

text \<open>
  The pattern of line 81, \<^verbatim>\<open>r'\b' + re.escape(keyword) + r'\b'\<close>: the keyword as a
  literal between two word boundaries.
\<close>

definition keyword_pattern :: "string \<Rightarrow> regex" where
  "keyword_pattern keyword = seqs [Boundary, Lit keyword, Boundary]"

text \<open>The inner loop of \<^verbatim>\<open>extract_emotions\<close> (lines 78 to 83): the score of one emotion.\<close>

definition emotion_score :: "string list \<Rightarrow> string \<Rightarrow> nat" where
  "emotion_score keywords text_lower =
     fold (\<lambda>keyword score. score + length (re_findall (keyword_pattern keyword) text_lower))
          keywords 0"

text \<open>\<^verbatim>\<open>extract_emotions\<close>: the dictionary it returns, as a map from emotion to score.\<close>

definition extract_emotions :: "string \<Rightarrow> (string \<rightharpoonup> real)" where
  "extract_emotions text =
    (let text_lower = lower text
     in fold (\<lambda>(emotion, keywords) emotions.
                let score = emotion_score keywords text_lower
                in if score > 0 then emotions(emotion \<mapsto> min 1.0 (real score / 3.0))
                   else emotions)
             EMOTION_KEYWORDS Map.empty)"

section \<open>The specification's vocabulary\<close>

text \<open>
  The count of a pattern group in the specification's words: the number of non-overlapping
  matches of the group's rules in the text, case-insensitively.
\<close>

definition match_count :: "regex list \<Rightarrow> string \<Rightarrow> nat" where
  "match_count ps t = (\<Sum>p\<leftarrow>ps. length (re_findall p t))"

definition signal_count :: "regex list \<Rightarrow> string \<Rightarrow> nat" where
  "signal_count ps text = match_count ps (lower text)"

text \<open>The number of rules of a group that occur in a text at all.\<close>

definition pattern_hits :: "regex list \<Rightarrow> string \<Rightarrow> nat" where
  "pattern_hits ps t = length (filter (\<lambda>p. re_search p t) ps)"

text \<open>
  The strictness multiplier, the ratio of capitals of line 75 and the condition of the
  excessive capitals signal of line 76.
\<close>

definition multiplier :: "string \<Rightarrow> real" where
  "multiplier strictness =
     (if strictness = ''high'' then 1.5 else if strictness = ''low'' then 0.7 else 1.0)"

definition caps_ratio_of :: "string \<Rightarrow> real" where
  "caps_ratio_of text =
     (if text \<noteq> [] then real (length (filter isupper text)) / real (length text) else 0)"

definition excessive_caps :: "string \<Rightarrow> bool" where
  "excessive_caps text = (caps_ratio_of text > 0.7 \<and> length text > 10)"

text \<open>
  The three shapes the specification allows for the function \<open>f\<close> of a group: the
  identity, a capped linear function and a presence indicator.
\<close>

datatype shape = Identity | Capped nat | Presence

fun apply_shape :: "shape \<Rightarrow> nat \<Rightarrow> real" where
  "apply_shape Identity n = real n"
| "apply_shape (Capped cap) n = real (min n cap)"
| "apply_shape Presence n = (if n > 0 then 1 else 0)"

text \<open>
  The aggregate of the specification for the moderation module, with the shapes it names
  (profanity capped at 3, the capitals signal a presence indicator, hate speech linear) and
  the shape of the spam group left open. The counts are the numbers of rules that occur for
  hate speech and spam, as the code counts them, and the number of matches for profanity.
\<close>

definition spec_score :: "shape \<Rightarrow> string \<Rightarrow> string \<Rightarrow> real" where
  "spec_score spam_shape text strictness =
     multiplier strictness *
       (0.8 * apply_shape Identity (pattern_hits HATE_SPEECH_PATTERNS (lower text))
        + 0.6 * apply_shape spam_shape (pattern_hits SPAM_PATTERNS (lower text))
        + 0.3 * apply_shape (Capped 3) (match_count PROFANITY_PATTERNS (lower text))
        + 0.2 * apply_shape Presence (if excessive_caps text then 1 else 0))"

text \<open>
  The classifier of the specification: a threshold band is a list of lower bound, label
  and action in ascending order, where no lower bound stands for the band that takes every
  remaining score. The classifier scans from the highest lower bound downwards and fails
  with an invalid configuration when no band matches.
\<close>

datatype error = InvalidConfiguration

type_synonym band = "real option \<times> string \<times> string"

definition band_matches :: "band \<Rightarrow> real \<Rightarrow> bool" where
  "band_matches b score = (case fst b of None \<Rightarrow> True | Some lb \<Rightarrow> lb \<le> score)"

definition bound_le :: "real option \<Rightarrow> real option \<Rightarrow> bool" where
  "bound_le a b =
     (case a of None \<Rightarrow> True | Some x \<Rightarrow> (case b of None \<Rightarrow> False | Some y \<Rightarrow> x \<le> y))"

definition classify :: "band list \<Rightarrow> real \<Rightarrow> error + string \<times> string" where
  "classify bands score =
     (case find (\<lambda>b. band_matches b score) (rev bands) of
        None \<Rightarrow> Inl InvalidConfiguration
      | Some b \<Rightarrow> Inr (snd b))"

definition moderation_bands :: "band list" where
  "moderation_bands =
    [(None, ''low'', ''allow''),
     (Some 0.4, ''medium'', ''warn''),
     (Some 0.6, ''high'', ''flag_for_review''),
     (Some 0.8, ''critical'', ''block'')]"

section \<open>The moderation score in closed form\<close>

lemma hate_loop:
  "fold (\<lambda>pattern (issues, risk_score).
            if re_search pattern t
            then (issues @ [''hate_speech''], risk_score + 0.8)
            else (issues, risk_score)) ps (is, r)
   = (is @ replicate (pattern_hits ps t) ''hate_speech'', r + 0.8 * real (pattern_hits ps t))"
proof (induction ps arbitrary: "is" r)
  case Nil
  show ?case by (simp add: pattern_hits_def)
next
  case (Cons p ps)
  show ?case
    using Cons.IH by (simp add: pattern_hits_def replicate_app_Cons_same algebra_simps)
qed

lemma spam_loop:
  "fold (\<lambda>pattern spam_count. if re_search pattern t then spam_count + 1 else spam_count) ps n
   = n + pattern_hits ps t"
  by (induction ps arbitrary: n) (simp_all add: pattern_hits_def)

lemma profanity_loop:
  "fold (\<lambda>pattern profanity_count. profanity_count + length (re_findall pattern t)) ps n
   = n + match_count ps t"
  by (induction ps arbitrary: n) (simp_all add: match_count_def)

lemma risk_score_formula:
  "risk_score_of text strictness =
     multiplier strictness *
       (0.8 * real (pattern_hits HATE_SPEECH_PATTERNS (lower text))
        + 0.6 * (if pattern_hits SPAM_PATTERNS (lower text) \<ge> 2 then 1 else 0)
        + 0.3 * real (min (match_count PROFANITY_PATTERNS (lower text)) 3)
        + 0.2 * (if excessive_caps text then 1 else 0))"
  unfolding risk_score_of_def score_content_def Let_def hate_loop spam_loop profanity_loop
  by (simp add: multiplier_def excessive_caps_def caps_ratio_of_def algebra_simps
           split: prod.splits)

lemma analyze_content_fields:
  "is_appropriate (analyze_content text ctype strictness) = (risk_score_of text strictness < 0.6)"
  "confidence_score (analyze_content text ctype strictness) = min 1 (risk_score_of text strictness)"
  "(risk_level (analyze_content text ctype strictness),
    suggested_action (analyze_content text ctype strictness))
     = risk_band (risk_score_of text strictness)"
  by (simp_all add: analyze_content_def risk_score_of_def split: prod.splits)

lemma multiplier_pos: "0 < multiplier s"
  by (simp add: multiplier_def)

lemma risk_score_nonneg: "0 \<le> risk_score_of text strictness"
proof -
  have "0 \<le> multiplier strictness"
    using multiplier_pos[of strictness] by simp
  then show ?thesis
    unfolding risk_score_formula by (intro mult_nonneg_nonneg add_nonneg_nonneg) simp_all
qed

text \<open>
  Claim C1, as amended. The risk score that \<^verbatim>\<open>analyze_content\<close> aggregates is the
  strictness multiplier (1.5 for \<open>high\<close>, 0.7 for \<open>low\<close>, 1 otherwise) times the weighted
  sum of four signals: 0.8 for every hate speech pattern that occurs in the text, 0.6 when
  two spam patterns or more occur, 0.3 for every profanity match up to three of them, and
  0.2 when the text is longer than 10 characters and more than 0.7 of them are capitals.
\<close>

theorem aggregated_score_formula:
  "risk_score_of text strictness =
     multiplier strictness *
       (0.8 * real (pattern_hits HATE_SPEECH_PATTERNS (lower text))
        + 0.6 * (if pattern_hits SPAM_PATTERNS (lower text) \<ge> 2 then 1 else 0)
        + 0.3 * real (min (match_count PROFANITY_PATTERNS (lower text)) 3)
        + 0.2 * (if excessive_caps text then 1 else 0))"
  unfolding risk_score_of_def score_content_def Let_def hate_loop spam_loop profanity_loop
  by (simp add: multiplier_def excessive_caps_def caps_ratio_of_def algebra_simps
           split: prod.splits)

text \<open>
  Claim C1 as it is written fails on the spam group: one spam pattern adds nothing and two
  add 0.6, which none of the identity, a capped linear function and a presence indicator
  does. The texts \<open>sale\<close> (one spam pattern) and \<open>sale guaranteed\<close> (two) show it.
\<close>

lemma sale_score: "risk_score_of ''sale'' ''medium'' = 0"
  by code_simp

lemma sale_guaranteed_score: "risk_score_of ''sale guaranteed'' ''medium'' = 0.6"
  by code_simp

lemma sale_spec: "spec_score sh ''sale'' ''medium'' = 0.6 * apply_shape sh 1"
proof -
  have "pattern_hits HATE_SPEECH_PATTERNS (lower ''sale'') = 0" by code_simp
  moreover have "pattern_hits SPAM_PATTERNS (lower ''sale'') = 1" by code_simp
  moreover have "match_count PROFANITY_PATTERNS (lower ''sale'') = 0" by code_simp
  moreover have "\<not> excessive_caps ''sale''" by (simp add: excessive_caps_def)
  moreover have "multiplier ''medium'' = 1" by (simp add: multiplier_def)
  ultimately show ?thesis by (simp add: spec_score_def)
qed

lemma sale_guaranteed_spec:
  "spec_score sh ''sale guaranteed'' ''medium'' = 0.6 * apply_shape sh 2"
proof -
  have "pattern_hits HATE_SPEECH_PATTERNS (lower ''sale guaranteed'') = 0" by code_simp
  moreover have "pattern_hits SPAM_PATTERNS (lower ''sale guaranteed'') = 2" by code_simp
  moreover have "match_count PROFANITY_PATTERNS (lower ''sale guaranteed'') = 0" by code_simp
  moreover have "\<not> excessive_caps ''sale guaranteed''" by code_simp
  moreover have "multiplier ''medium'' = 1" by (simp add: multiplier_def)
  ultimately show ?thesis by (simp add: spec_score_def)
qed

theorem spam_shape_counterexample:
  "\<not> (\<exists>spam_shape.
        risk_score_of ''sale'' ''medium'' = spec_score spam_shape ''sale'' ''medium''
      \<and> risk_score_of ''sale guaranteed'' ''medium''
          = spec_score spam_shape ''sale guaranteed'' ''medium'')"
proof
  assume "\<exists>spam_shape.
        risk_score_of ''sale'' ''medium'' = spec_score spam_shape ''sale'' ''medium''
      \<and> risk_score_of ''sale guaranteed'' ''medium''
          = spec_score spam_shape ''sale guaranteed'' ''medium''"
  then obtain sh where one: "0 = 0.6 * apply_shape sh 1" and two: "0.6 = 0.6 * apply_shape sh 2"
    unfolding sale_score sale_guaranteed_score sale_spec sale_guaranteed_spec by blast
  show False
  proof (cases sh)
    case Identity
    with one show False by simp
  next
    case (Capped cap)
    with one have "cap = 0" by (simp add: min_def split: if_splits)
    with two Capped show False by simp
  next
    case Presence
    with one show False by simp
  qed
qed

section \<open>The classifier\<close>

lemma find_rev_bands:
  "find (\<lambda>b. band_matches b x) (rev moderation_bands) =
     (if 0.8 \<le> x then Some (Some 0.8, ''critical'', ''block'')
      else if 0.6 \<le> x then Some (Some 0.6, ''high'', ''flag_for_review'')
      else if 0.4 \<le> x then Some (Some 0.4, ''medium'', ''warn'')
      else Some (None, ''low'', ''allow''))"
  by (simp add: moderation_bands_def band_matches_def)

lemma risk_band_cases:
  "risk_band x = (''critical'', ''block'') \<and> 0.8 \<le> x
   \<or> risk_band x = (''high'', ''flag_for_review'') \<and> 0.6 \<le> x \<and> x < 0.8
   \<or> risk_band x = (''medium'', ''warn'') \<and> 0.4 \<le> x \<and> x < 0.6
   \<or> risk_band x = (''low'', ''allow'') \<and> x < 0.4"
  by (simp add: risk_band_def)

lemma risk_band_min: "risk_band (min 1 x) = risk_band x"
  by (simp add: risk_band_def min_def)

text \<open>
  Claim C2. For every score the chain of comparisons of lines 86 to 98 returns one pair of
  label and action, the one the classifier of the specification finds in the moderation
  bands: the pair of the matching band with the highest lower bound. The classifier fails
  with an invalid configuration exactly when no band matches the score, which never
  happens, since the lowest band takes every score.
\<close>

theorem classifier_picks_tightest_band:
  "classify moderation_bands score = Inr (risk_band score)
   \<and> (\<exists>b \<in> set moderation_bands.
         band_matches b score \<and> snd b = risk_band score
         \<and> (\<forall>b' \<in> set moderation_bands. band_matches b' score \<longrightarrow> bound_le (fst b') (fst b)))
   \<and> ((classify moderation_bands score = Inl InvalidConfiguration)
        = (\<not> (\<exists>b \<in> set moderation_bands. band_matches b score)))"
proof (intro conjI)
  show c: "classify moderation_bands score = Inr (risk_band score)"
    by (simp add: classify_def find_rev_bands risk_band_def)
  show "\<exists>b \<in> set moderation_bands.
         band_matches b score \<and> snd b = risk_band score
         \<and> (\<forall>b' \<in> set moderation_bands. band_matches b' score \<longrightarrow> bound_le (fst b') (fst b))"
    by (simp add: moderation_bands_def band_matches_def bound_le_def risk_band_def)
  have "band_matches (None, ''low'', ''allow'') score"
    by (simp add: band_matches_def)
  then have "\<exists>b \<in> set moderation_bands. band_matches b score"
    by (simp add: moderation_bands_def)
  then show "(classify moderation_bands score = Inl InvalidConfiguration)
        = (\<not> (\<exists>b \<in> set moderation_bands. band_matches b score))"
    using c by simp
qed

theorem classifier_picks_tightest_band_witness:
  "classify moderation_bands 0.7 = Inr (''high'', ''flag_for_review'')
   \<and> classify moderation_bands 0.7 \<noteq> Inl InvalidConfiguration"
  using classifier_picks_tightest_band[of "0.7"] by (simp add: risk_band_def)

section \<open>Properties of the moderation result\<close>

text \<open>
  Claim C3. For every text, content type and strictness, the confidence score of the
  moderation result lies between 0 and 1.
\<close>

theorem confidence_score_in_unit_interval:
  "0 \<le> confidence_score (analyze_content text ctype strictness)
   \<and> confidence_score (analyze_content text ctype strictness) \<le> 1"
  using risk_score_nonneg[of "text" strictness] by (simp add: analyze_content_fields(2))

text \<open>
  Claim C9. The result is appropriate exactly when its risk level is \<open>low\<close> or \<open>medium\<close>,
  and exactly when its suggested action is \<open>allow\<close> or \<open>warn\<close>: all three say that the risk
  score is below 0.6.
\<close>

theorem appropriate_iff_low_or_medium:
  "is_appropriate (analyze_content text ctype strictness)
     = (risk_level (analyze_content text ctype strictness) = ''low''
        \<or> risk_level (analyze_content text ctype strictness) = ''medium'')
   \<and> is_appropriate (analyze_content text ctype strictness)
     = (suggested_action (analyze_content text ctype strictness) = ''allow''
        \<or> suggested_action (analyze_content text ctype strictness) = ''warn'')
   \<and> is_appropriate (analyze_content text ctype strictness)
     = (risk_score_of text strictness < 0.6)"
proof -
  let ?r = "analyze_content text ctype strictness"
  let ?x = "risk_score_of text strictness"
  have band: "risk_band ?x = (risk_level ?r, suggested_action ?r)"
    by (simp add: analyze_content_fields(3))
  have app: "is_appropriate ?r = (?x < 0.6)"
    by (simp add: analyze_content_fields(1))
  from risk_band_cases[of ?x] show ?thesis
    unfolding band app by auto
qed

text \<open>
  Claim C10. Classifying the unclamped risk score, as the code does, gives the same risk
  level and suggested action as classifying the clamped score that the result reports as
  its confidence score.
\<close>

theorem clamping_keeps_band:
  "risk_band (risk_score_of text strictness)
     = risk_band (confidence_score (analyze_content text ctype strictness))
   \<and> (risk_level (analyze_content text ctype strictness),
      suggested_action (analyze_content text ctype strictness))
     = risk_band (confidence_score (analyze_content text ctype strictness))"
  by (simp only: analyze_content_fields(2,3) risk_band_min)

section \<open>Searching and counting matches\<close>

lemma scan_nonempty: "(scan r False (p, xs) \<noteq> []) = search r (p, xs)"
proof (induction xs arbitrary: p)
  case Nil
  show ?case by (subst scan.simps) (simp split: list.splits)
next
  case (Cons c cs)
  show ?case using Cons.IH by (subst scan.simps) (simp split: list.splits)
qed

lemma re_search_findall: "re_search r s = (re_findall r s \<noteq> [])"
  by (simp add: re_search_def re_findall_def scan_nonempty)

text \<open>
  The matches \<^verbatim>\<open>re.findall\<close> returns do not overlap: they are cut from the text one
  after the other, so together they are no longer than the text.
\<close>

lemma scan_unfold_nil:
  "(if adv then filter (\<lambda>e. length (snd e) < length xs) (ends r (p, xs)) else ends r (p, xs)) = []
   \<Longrightarrow> scan r adv (p, xs) = (case xs of [] \<Rightarrow> [] | c # cs \<Rightarrow> scan r False (Some c, cs))"
  by (subst scan.simps) simp

lemma scan_unfold_cons:
  "(if adv then filter (\<lambda>e. length (snd e) < length xs) (ends r (p, xs)) else ends r (p, xs)) = e # es
   \<Longrightarrow> scan r adv (p, xs) =
         take (length xs - length (snd e)) xs #
          (if length (snd e) < length xs then scan r False e
           else if adv then []
           else scan r True (p, xs))"
  by (subst scan.simps) simp

lemma scan_matches_fit: "sum_list (map length (scan r adv cur)) \<le> length (snd cur)"
proof (induction r adv cur rule: scan.induct)
  case (1 r adv p xs)
  let ?c = "if adv then filter (\<lambda>e. length (snd e) < length xs) (ends r (p, xs))
            else ends r (p, xs)"
  show ?case
  proof (cases ?c)
    case none: Nil
    note eq = scan_unfold_nil[OF none]
    show ?thesis
    proof (cases xs)
      case Nil
      show ?thesis unfolding eq using Nil by simp
    next
      case (Cons c cs)
      show ?thesis unfolding eq using "1.IH"(1)[OF none Cons] Cons by simp
    qed
  next
    case (Cons e es)
    note eq = scan_unfold_cons[OF Cons]
    show ?thesis
    proof (cases "length (snd e) < length xs")
      case True
      show ?thesis unfolding eq using "1.IH"(2)[OF Cons True] True by simp
    next
      case False
      show ?thesis
      proof (cases adv)
        case True
        show ?thesis unfolding eq using False True by simp
      next
        case notadv: False
        show ?thesis unfolding eq using "1.IH"(3)[OF Cons False notadv] False notadv by simp
      qed
    qed
  qed
qed

lemma findall_matches_fit: "sum_list (map length (re_findall r s)) \<le> length s"
  using scan_matches_fit[of r False "(None, s)"] by (simp add: re_findall_def)

lemma pattern_hits_findall:
  "pattern_hits ps t = (\<Sum>p\<leftarrow>ps. min 1 (length (re_findall p t)))"
  by (induction ps) (auto simp: pattern_hits_def re_search_findall min_def Suc_le_eq)

lemma pattern_hits_le_match_count: "pattern_hits ps t \<le> match_count ps t"
  unfolding pattern_hits_findall match_count_def
  by (rule sum_list_mono) simp

lemma pattern_hits_zero: "match_count ps t = 0 \<Longrightarrow> pattern_hits ps t = 0"
  using pattern_hits_le_match_count[of ps t] by simp

lemma pattern_hits_pos: "0 < match_count ps t \<Longrightarrow> 0 < pattern_hits ps t"
  unfolding pattern_hits_findall match_count_def
  by (induction ps) (auto simp: min_def)

lemma pattern_hits_one: "match_count ps t = 1 \<Longrightarrow> pattern_hits ps t = 1"
  using pattern_hits_le_match_count[of ps t] pattern_hits_pos[of ps t] by simp

lemma score_content_parts:
  "score_content text strictness =
     (replicate (pattern_hits HATE_SPEECH_PATTERNS (lower text)) ''hate_speech''
        @ (if pattern_hits SPAM_PATTERNS (lower text) \<ge> 2 then [''spam''] else [])
        @ (if match_count PROFANITY_PATTERNS (lower text) > 0 then [''profanity''] else [])
        @ (if excessive_caps text then [''excessive_caps''] else []),
      risk_score_of text strictness,
      match_count PROFANITY_PATTERNS (lower text),
      caps_ratio_of text)"
  unfolding risk_score_of_def score_content_def Let_def hate_loop spam_loop profanity_loop
  by (simp add: excessive_caps_def caps_ratio_of_def split: prod.splits)

lemma analyze_content_details:
  "flagged_issues (analyze_content text ctype strictness) = fst (score_content text strictness)"
  "profanity_count (moderation_details (analyze_content text ctype strictness))
     = match_count PROFANITY_PATTERNS (lower text)"
  "caps_ratio (moderation_details (analyze_content text ctype strictness)) = caps_ratio_of text"
  "spam_detected (moderation_details (analyze_content text ctype strictness))
     = (''spam'' \<in> set (fst (score_content text strictness)))"
  by (simp_all add: analyze_content_def score_content_parts split: prod.splits)

lemma emotion_loop:
  "fold (\<lambda>keyword score. score + length (re_findall (keyword_pattern keyword) t)) ks n
   = n + match_count (map keyword_pattern ks) t"
  by (induction ks arbitrary: n) (simp_all add: match_count_def)

lemma emotion_score_signal:
  "emotion_score keywords (lower text) = signal_count (map keyword_pattern keywords) text"
  by (simp add: emotion_score_def emotion_loop signal_count_def)

text \<open>
  Claim C4, as amended. The profanity count of the moderation module and the score of an
  emotion keyword group of the sentiment module, before it is normalised, are the number of
  non-overlapping case-insensitive matches of the group's rules in the text, each rule
  scanned on its own and the numbers added up. The hate speech and spam groups count
  something else: a rule counts once when it occurs at all, however often it matches. The
  result has one \<open>hate_speech\<close> issue for every hate speech rule that occurs, and spam is
  detected when two spam rules or more occur.
\<close>

theorem extractor_counts:
  "profanity_count (moderation_details (analyze_content text ctype strictness))
     = signal_count PROFANITY_PATTERNS text
   \<and> emotion_score keywords (lower text) = signal_count (map keyword_pattern keywords) text
   \<and> count_list (flagged_issues (analyze_content text ctype strictness)) ''hate_speech''
     = (\<Sum>p\<leftarrow>HATE_SPEECH_PATTERNS. min 1 (length (re_findall p (lower text))))
   \<and> spam_detected (moderation_details (analyze_content text ctype strictness))
     = (2 \<le> (\<Sum>p\<leftarrow>SPAM_PATTERNS. min 1 (length (re_findall p (lower text)))))"
proof (intro conjI)
  show "profanity_count (moderation_details (analyze_content text ctype strictness))
     = signal_count PROFANITY_PATTERNS text"
    by (simp add: analyze_content_details(2) signal_count_def)
  show "emotion_score keywords (lower text) = signal_count (map keyword_pattern keywords) text"
    by (rule emotion_score_signal)
  have "count_list (replicate n ''hate_speech'') ''hate_speech'' = n" for n
    by (induction n) simp_all
  then show "count_list (flagged_issues (analyze_content text ctype strictness)) ''hate_speech''
     = (\<Sum>p\<leftarrow>HATE_SPEECH_PATTERNS. min 1 (length (re_findall p (lower text))))"
    by (simp add: analyze_content_details(1) score_content_parts pattern_hits_findall)
  have "spam_detected (moderation_details (analyze_content text ctype strictness))
     = (2 \<le> pattern_hits SPAM_PATTERNS (lower text))"
    by (simp add: analyze_content_details(4) score_content_parts)
  then show "spam_detected (moderation_details (analyze_content text ctype strictness))
     = (2 \<le> (\<Sum>p\<leftarrow>SPAM_PATTERNS. min 1 (length (re_findall p (lower text)))))"
    by (simp only: pattern_hits_findall)
qed

text \<open>
  Claim C4 as it is written fails on the hate speech group: the text \<open>nazi nazi\<close> has two
  non-overlapping matches of the group's rules, and the code counts one (one issue, and a
  risk score of 0.8 where two matches would give 1.6).
\<close>

theorem hate_speech_count_counterexample:
  "signal_count HATE_SPEECH_PATTERNS ''nazi nazi'' = 2
   \<and> count_list (flagged_issues (analyze_content ''nazi nazi'' ''general'' ''medium''))
        ''hate_speech'' = 1
   \<and> risk_score_of ''nazi nazi'' ''medium'' = 0.8"
  by code_simp

text \<open>
  Claim C7. A text with one match of the hate speech patterns in all, no match of a spam or
  profanity pattern and a ratio of capitals of 0.7 at most gets, under the strictness
  \<open>medium\<close>, the score 0.8, the risk level \<open>critical\<close> and the action \<open>block\<close>.
\<close>

theorem single_hate_match_is_critical:
  assumes "match_count HATE_SPEECH_PATTERNS (lower text) = 1"
      and "match_count SPAM_PATTERNS (lower text) = 0"
      and "match_count PROFANITY_PATTERNS (lower text) = 0"
      and "caps_ratio (moderation_details (analyze_content text ctype ''medium'')) \<le> 0.7"
  shows "confidence_score (analyze_content text ctype ''medium'') = 0.8
       \<and> risk_level (analyze_content text ctype ''medium'') = ''critical''
       \<and> suggested_action (analyze_content text ctype ''medium'') = ''block''"
proof -
  have caps: "\<not> excessive_caps text"
    using assms(4) by (simp add: analyze_content_details(3) excessive_caps_def)
  have score: "risk_score_of text ''medium'' = 0.8"
    unfolding risk_score_formula
    by (simp add: pattern_hits_one[OF assms(1)] pattern_hits_zero[OF assms(2)] assms(3) caps
                  multiplier_def)
  have "(risk_level (analyze_content text ctype ''medium''),
         suggested_action (analyze_content text ctype ''medium'')) = (''critical'', ''block'')"
    unfolding analyze_content_fields(3) score by (simp add: risk_band_def)
  then show ?thesis
    by (simp add: analyze_content_fields(2) score)
qed

theorem single_hate_match_is_critical_witness:
  "confidence_score (analyze_content ''Go away, Nazi!'' ''forum'' ''medium'') = 0.8
   \<and> risk_level (analyze_content ''Go away, Nazi!'' ''forum'' ''medium'') = ''critical''
   \<and> suggested_action (analyze_content ''Go away, Nazi!'' ''forum'' ''medium'') = ''block''"
  by (rule single_hate_match_is_critical; code_simp)

section \<open>The dictionary of emotions\<close>

lemma emotions_fold_other:
  "e \<notin> fst ` set al \<Longrightarrow>
   fold (\<lambda>(emotion, keywords) emotions.
           let score = emotion_score keywords t
           in if score > 0 then emotions(emotion \<mapsto> min 1.0 (real score / 3.0))
              else emotions) al m e = m e"
  by (induction al arbitrary: m) (auto simp: Let_def)

lemma emotions_fold_key:
  "distinct (map fst al) \<Longrightarrow> (e, ks) \<in> set al \<Longrightarrow>
   fold (\<lambda>(emotion, keywords) emotions.
           let score = emotion_score keywords t
           in if score > 0 then emotions(emotion \<mapsto> min 1.0 (real score / 3.0))
              else emotions) al m e
     = (if emotion_score ks t > 0 then Some (min 1 (real (emotion_score ks t) / 3)) else m e)"
proof (induction al arbitrary: m)
  case Nil
  then show ?case by simp
next
  case (Cons a al)
  obtain e' ks' where a: "a = (e', ks')" by (cases a)
  show ?case
  proof (cases "(e, ks) \<in> set al")
    case True
    with Cons.prems a have "e' \<noteq> e" by force
    with Cons.IH[OF _ True] Cons.prems(1) a show ?thesis by (simp add: Let_def)
  next
    case False
    with Cons.prems a have eq: "e' = e" "ks' = ks" by auto
    with Cons.prems(1) a have "e \<notin> fst ` set al" by simp
    from emotions_fold_other[OF this] eq a show ?thesis by (simp add: Let_def)
  qed
qed

lemma distinct_emotions: "distinct (map fst EMOTION_KEYWORDS)"
  by (simp add: EMOTION_KEYWORDS_def)

lemma extract_emotions_key:
  "(e, ks) \<in> set EMOTION_KEYWORDS \<Longrightarrow>
   extract_emotions text e =
     (if emotion_score ks (lower text) > 0
      then Some (min 1 (real (emotion_score ks (lower text)) / 3)) else None)"
  unfolding extract_emotions_def Let_def
  by (subst emotions_fold_key[OF distinct_emotions, unfolded Let_def]) simp_all

lemma joy_keywords:
  "(''joy'', [''happy'', ''excited'', ''great'', ''amazing'', ''wonderful'', ''fantastic'',
             ''love'', ''enjoy'', ''pleased'', ''thrilled'']) \<in> set EMOTION_KEYWORDS"
  by (simp add: EMOTION_KEYWORDS_def)

lemma fear_keywords:
  "(''fear'', [''scared'', ''afraid'', ''terrified'', ''worried'', ''anxious'', ''nervous'',
              ''frightened'', ''panicked'', ''horrified'']) \<in> set EMOTION_KEYWORDS"
  by (simp add: EMOTION_KEYWORDS_def)

lemma extract_emotions_other:
  "e \<notin> fst ` set EMOTION_KEYWORDS \<Longrightarrow> extract_emotions text e = None"
  unfolding extract_emotions_def Let_def
  by (subst emotions_fold_other[unfolded Let_def]) simp_all

lemma extract_emotions_entry:
  assumes "extract_emotions text e = Some v"
  shows "0 < v \<and> v \<le> 1 \<and> e \<in> fst ` set EMOTION_KEYWORDS"
proof -
  have key: "e \<in> fst ` set EMOTION_KEYWORDS"
    using assms extract_emotions_other[of e "text"] by auto
  then obtain ks where ks: "(e, ks) \<in> set EMOTION_KEYWORDS" by auto
  from assms have pos: "0 < emotion_score ks (lower text)"
    and v: "v = min 1 (real (emotion_score ks (lower text)) / 3)"
    by (auto simp: extract_emotions_key[OF ks] split: if_splits)
  from pos have "0 < real (emotion_score ks (lower text)) / 3" by simp
  with v key show ?thesis by simp
qed

text \<open>
  Claim C5, as amended. For every text, an emotion none of whose keywords occurs has no
  entry in the dictionary \<^verbatim>\<open>extract_emotions\<close> returns; this is no error. An emotion
  with \<open>n > 0\<close> matches of its keywords has the entry \<open>min 1 (n / 3)\<close>. Every entry of the
  dictionary belongs to an emotion of the keyword table and lies above 0 and at most at 1,
  so no entry is zero.
\<close>

theorem unmatched_emotion_absent:
  "((emotion, keywords) \<in> set EMOTION_KEYWORDS \<longrightarrow>
      extract_emotions text emotion =
        (if signal_count (map keyword_pattern keywords) text = 0 then None
         else Some (min 1 (real (signal_count (map keyword_pattern keywords) text) / 3))))
   \<and> (extract_emotions text e = Some v \<longrightarrow>
        0 < v \<and> v \<le> 1 \<and> e \<in> fst ` set EMOTION_KEYWORDS)"
proof (intro conjI impI)
  assume "(emotion, keywords) \<in> set EMOTION_KEYWORDS"
  then show "extract_emotions text emotion =
        (if signal_count (map keyword_pattern keywords) text = 0 then None
         else Some (min 1 (real (signal_count (map keyword_pattern keywords) text) / 3)))"
    by (simp add: extract_emotions_key emotion_score_signal)
next
  assume "extract_emotions text e = Some v"
  then show "0 < v" and "v \<le> 1" and "e \<in> fst ` set EMOTION_KEYWORDS"
    using extract_emotions_entry[of "text" e v] by simp_all
qed

theorem unmatched_emotion_absent_witness:
  "extract_emotions ''so Happy'' ''joy'' = Some (1 / 3) \<and> (0::real) < 1 / 3"
proof -
  have n: "signal_count (map keyword_pattern [''happy'', ''excited'', ''great'', ''amazing'',
          ''wonderful'', ''fantastic'', ''love'', ''enjoy'', ''pleased'', ''thrilled''])
          ''so Happy'' = 1"
    by code_simp
  have entry: "extract_emotions ''so Happy'' ''joy'' = Some (1 / 3)"
    using unmatched_emotion_absent[of "''joy''" "[''happy'', ''excited'', ''great'', ''amazing'',
          ''wonderful'', ''fantastic'', ''love'', ''enjoy'', ''pleased'', ''thrilled'']"
          "''so Happy''"] joy_keywords n
    by simp
  with unmatched_emotion_absent[of _ _ "''so Happy''" "''joy''" "1 / 3"] show ?thesis
    by simp
qed

text \<open>
  Claim C5 as it is written fails: no keyword of \<open>fear\<close> occurs in the text \<open>calm\<close>, and
  the dictionary has no entry for \<open>fear\<close> rather than the entry 0.
\<close>

theorem unmatched_emotion_counterexample:
  "signal_count (map keyword_pattern [''scared'', ''afraid'', ''terrified'', ''worried'',
       ''anxious'', ''nervous'', ''frightened'', ''panicked'', ''horrified'']) ''calm'' = 0
   \<and> extract_emotions ''calm'' ''fear'' = None
   \<and> extract_emotions ''calm'' ''fear'' \<noteq> Some 0"
proof -
  have "emotion_score [''scared'', ''afraid'', ''terrified'', ''worried'',
       ''anxious'', ''nervous'', ''frightened'', ''panicked'', ''horrified''] (lower ''calm'') = 0"
    by code_simp
  then show ?thesis
    by (simp add: extract_emotions_key[OF fear_keywords] emotion_score_signal)
qed

end
